theory Spec2Isabelle
  imports
    Complex_Main
    "HOL-Library.Multiset"
    "HOL-Library.Char_ord"
    "HOL-Library.List_Lexorder"
    "HOL-Library.Extended_Nat"
begin

chapter \<open>web-codegen-scorer: the run orchestrator and the run configuration\<close>

text \<open>
  A shallow embedding of the parts of the runner that schedule prompt evaluations
  (\<^verbatim>\<open>orchestration/generate.ts\<close>, \<^verbatim>\<open>orchestration/generate-eval-task.ts\<close>), of the
  \<^verbatim>\<open>Environment\<close> class (\<^verbatim>\<open>configuration/environment.ts\<close>) and of
  \<^verbatim>\<open>AiSDKRunner.generateFiles\<close>. Promises are modelled by their settled value:
  a rejection or a \<^verbatim>\<open>throw\<close> is \<open>Inl\<close> of the thrown value, a resolution is \<open>Inr\<close>.
  Strings are \<^typ>\<open>string\<close>, ordered by character code (the order of the default
  \<^verbatim>\<open>Array.prototype.sort\<close> on strings).
\<close>

section \<open>Values of the JavaScript runtime\<close>

text \<open>
  What a \<^verbatim>\<open>catch\<close> clause can tell about a thrown value: its class (the
  \<^verbatim>\<open>instanceof\<close> tests of the source), its message and its \<^verbatim>\<open>stack\<close> property.
  \<open>NotAnError\<close> stands for a thrown value that is no \<^verbatim>\<open>Error\<close> instance. The stack
  text of an error raised by the modelled code itself is not modelled (\<open>None\<close>).
\<close>

datatype err_class = TimeoutError | UserFacingError | TypeError | OtherError | NotAnError

datatype thrown = Thrown (cls: err_class) (message: string) (stack: "string option")

definition instanceof_Error :: "thrown \<Rightarrow> bool" where
  "instanceof_Error e = (cls e \<noteq> NotAnError)"

definition instanceof_TimeoutError :: "thrown \<Rightarrow> bool" where
  "instanceof_TimeoutError e = (cls e = TimeoutError)"

text \<open>\<^verbatim>\<open>a ?? b\<close>: the left operand unless it is \<^verbatim>\<open>null\<close> or \<^verbatim>\<open>undefined\<close>.\<close>

definition nullish :: "'a option \<Rightarrow> 'a \<Rightarrow> 'a" where
  "nullish a b = (case a of None \<Rightarrow> b | Some v \<Rightarrow> v)"

text \<open>\<^verbatim>\<open>xs.join(sep)\<close> on an array of strings.\<close>

fun join :: "string \<Rightarrow> string list \<Rightarrow> string" where
  "join sep [] = []"
| "join sep [x] = x"
| "join sep (x # y # ys) = x @ sep @ join sep (y # ys)"

text \<open>
  The decimal text of a number, as a template literal prints a non-negative integer
  (below \<open>10\<^sup>2\<^sup>1\<close>), and of an integer with its sign.
\<close>

definition digit_char :: "nat \<Rightarrow> char" where
  "digit_char d = char_of (48 + d)"

fun decimal :: "nat \<Rightarrow> string" where
  "decimal n = (if n < 10 then [digit_char n] else decimal (n div 10) @ [digit_char (n mod 10)])"

declare decimal.simps [simp del]

definition number_string :: "int \<Rightarrow> string" where
  "number_string i = (if i < 0 then CHR ''-'' # decimal (nat (- i)) else decimal (nat i))"

section \<open>Labels of a run\<close>

text \<open>
  \<^verbatim>\<open>new Set(xs)\<close> adds the elements in order; a \<^verbatim>\<open>Set\<close> keeps insertion order and
  adding an element it already holds changes nothing. \<^verbatim>\<open>Array.from\<close> lists the
  elements in insertion order. The set is modelled by that list.
\<close>

definition Set_add :: "'a list \<Rightarrow> 'a \<Rightarrow> 'a list" where
  "Set_add s x = (if x \<in> set s then s else s @ [x])"

definition new_Set :: "'a list \<Rightarrow> 'a list" where
  "new_Set xs = foldl Set_add [] xs"

definition Array_from :: "'a list \<Rightarrow> 'a list" where
  "Array_from s = s"

text \<open>
  The wording of the specification, for comparison: every configured label once, at
  the place of its first occurrence.
\<close>

fun first_occurrences :: "'a list \<Rightarrow> 'a list" where
  "first_occurrences [] = []"
| "first_occurrences (x # xs) = x # first_occurrences (filter (\<lambda>y. y \<noteq> x) xs)"

section \<open>Ratings and the rating hash\<close>

text \<open>
  \<^verbatim>\<open>RatingCategory\<close> is a string enum; a template literal prints the enum's value.
\<close>

datatype rating_category = HIGH_IMPACT | MEDIUM_IMPACT | LOW_IMPACT

fun category_string :: "rating_category \<Rightarrow> string" where
  "category_string HIGH_IMPACT = ''high-impact''"
| "category_string MEDIUM_IMPACT = ''medium-impact''"
| "category_string LOW_IMPACT = ''low-impact''"

text \<open>
  The fields of a rating that the environment reads (\<^verbatim>\<open>name\<close>, \<^verbatim>\<open>description\<close>,
  \<^verbatim>\<open>kind\<close> and \<^verbatim>\<open>rate\<close> are carried along untouched and are not modelled).
  \<open>groupingLabels\<close> is optional.
\<close>

record rating =
  category :: rating_category
  scoreReduction :: string
  ratingId :: string
  groupingLabels :: "string list option"

text \<open>An entry of \<^verbatim>\<open>ratingOverrides\<close>; \<open>None\<close> is a key the override does not have.\<close>

record rating_override =
  override_category :: "rating_category option"
  override_scoreReduction :: "string option"
  override_groupingLabels :: "string list option"

record category_config =
  categoryName :: string
  maxPoints :: int

record category_override =
  override_name :: "string option"
  override_maxPoints :: "int option"

record analysis_prompt_config =
  analysisName :: string
  analysisPath :: string

record analysis_prompt =
  analysisPromptName :: string
  analysisPromptText :: string

text \<open>
  The fields of \<^verbatim>\<open>EnvironmentConfig\<close> that the modelled part of the constructor
  reads. \<open>ratingOverrides\<close> lists the entries of the object in the order of
  \<^verbatim>\<open>Object.keys\<close>. Point budgets are integers here (the schema admits any number).
\<close>

record environment_config =
  displayName :: string
  configId :: "string option"
  ratings :: "rating list"
  ratingOverrides :: "(string \<times> rating_override) list option"
  categoryOverrides :: "(rating_category \<Rightarrow> category_override option) option"
  expectedRatingHash :: "string option"
  analysisPrompts :: "analysis_prompt_config list option"

text \<open>The result of rendering a prompt file: the text and the context-file patterns.\<close>

record rendered_prompt =
  renderResult :: string
  renderContextFiles :: "string list"

text \<open>
  What the environment takes from outside: the hash function of
  \<^verbatim>\<open>utils/hashing.ts\<close>, the id generator of \<^verbatim>\<open>utils/id-generation.ts\<close>, the
  path functions of Node, the directory listing, and the reading and rendering of a
  prompt file (\<^verbatim>\<open>renderEnvironmentPrompt\<close>, which can throw).
\<close>

record dirent =
  entryName :: string
  isFile :: bool

record outside =
  getSha256Hash :: "string \<Rightarrow> string"
  generateId :: "string \<Rightarrow> string option"
  path_resolve :: "string \<Rightarrow> string \<Rightarrow> string"
  path_basename :: "string \<Rightarrow> string"
  path_join :: "string \<Rightarrow> string \<Rightarrow> string"
  statSync_isDirectory :: "string \<Rightarrow> thrown + bool"
  readdirSync :: "string \<Rightarrow> thrown + dirent list"
  renderEnvironmentPrompt :: "string \<Rightarrow> thrown + rendered_prompt"

record environment =
  envId :: string
  envDisplayName :: string
  ratingCategories :: "rating_category \<Rightarrow> category_config"
  envRatings :: "rating list"
  ratingHash :: string
  envAnalysisPrompts :: "analysis_prompt list"

text \<open>\<^verbatim>\<open>{...rating, ...override}\<close>: the keys of the override replace the rating's.\<close>

definition apply_override :: "rating \<Rightarrow> rating_override \<Rightarrow> rating" where
  "apply_override r ov =
     r\<lparr>category := nullish (override_category ov) (category r),
       scoreReduction := nullish (override_scoreReduction ov) (scoreReduction r),
       groupingLabels :=
         (case override_groupingLabels ov of None \<Rightarrow> groupingLabels r | Some ls \<Rightarrow> Some ls)\<rparr>"

definition resolveRatings :: "environment_config \<Rightarrow> thrown + rating list" where
  "resolveRatings config =
     (case ratingOverrides config of
        None \<Rightarrow> Inr (ratings config)
      | Some overrides \<Rightarrow>
          (case find (\<lambda>k. \<not> list_ex (\<lambda>r. ratingId r = k) (ratings config)) (map fst overrides) of
             Some k \<Rightarrow>
               Inl (Thrown UserFacingError
                 (''Rating with an ID of \"'' @ k @
                  ''\" has not been configured. Cannot apply an override to it.'') None)
           | None \<Rightarrow>
               Inr (map (\<lambda>r. case map_of overrides (ratingId r) of
                                None \<Rightarrow> r
                              | Some ov \<Rightarrow> apply_override r ov)
                        (ratings config))))"

definition getRatingCategories ::
  "environment_config \<Rightarrow> rating_category \<Rightarrow> category_config" where
  "getRatingCategories config c =
     (let dflt = (case c of
                    HIGH_IMPACT \<Rightarrow> \<lparr>categoryName = ''High Impact'', maxPoints = 60\<rparr>
                  | MEDIUM_IMPACT \<Rightarrow> \<lparr>categoryName = ''Medium Impact'', maxPoints = 30\<rparr>
                  | LOW_IMPACT \<Rightarrow> \<lparr>categoryName = ''Low Impact'', maxPoints = 10\<rparr>)
      in case categoryOverrides config of
           None \<Rightarrow> dflt
         | Some overrides \<Rightarrow>
             (case overrides c of
                None \<Rightarrow> dflt
              | Some ov \<Rightarrow>
                  \<lparr>categoryName = nullish (override_name ov) (categoryName dflt),
                   maxPoints = nullish (override_maxPoints ov) (maxPoints dflt)\<rparr>))"

text \<open>
  The string pushed for one rating. In the source the last hole of the template is
  \<^verbatim>\<open>rating.groupingLabels || [].sort().join(',')\<close>: the method calls bind tighter
  than \<^verbatim>\<open>||\<close>, so a rating with labels prints the array itself (its elements
  joined by commas, in the order given), and only a rating without labels prints the
  sorted and joined empty array.
\<close>

definition rating_part :: "(rating_category \<Rightarrow> category_config) \<Rightarrow> rating \<Rightarrow> string" where
  "rating_part categories r =
     category_string (category r) @ '';'' @
     number_string (maxPoints (categories (category r))) @ '';'' @
     ratingId r @ '';'' @ scoreReduction r @ '';'' @
     (case groupingLabels r of
        Some labels \<Rightarrow> join '','' labels
      | None \<Rightarrow> join '','' (sort []))"

definition rating_hash_input ::
  "rating list \<Rightarrow> (rating_category \<Rightarrow> category_config) \<Rightarrow> string" where
  "rating_hash_input rs categories = join ''|'' (sort (map (rating_part categories) rs))"

definition getRatingHash ::
  "outside \<Rightarrow> rating list \<Rightarrow> (rating_category \<Rightarrow> category_config) \<Rightarrow> string" where
  "getRatingHash out rs categories = getSha256Hash out (rating_hash_input rs categories)"

text \<open>
  \<^verbatim>\<open>validateRatingHash\<close> reads \<^verbatim>\<open>this.displayName\<close> and \<^verbatim>\<open>this.ratingHash\<close>, both
  assigned before the call. A string is truthy when it is not empty.
\<close>

definition validateRatingHash ::
  "string \<Rightarrow> string \<Rightarrow> string \<Rightarrow> environment_config \<Rightarrow> thrown + unit" where
  "validateRatingHash this_displayName this_ratingHash currentHash config =
     (case expectedRatingHash config of
        None \<Rightarrow> Inr ()
      | Some expected \<Rightarrow>
          if expected \<noteq> [] \<and> expected \<noteq> currentHash
          then Inl (Thrown UserFacingError
                 (join [CHR 0x0A]
                    [''Rating hash for environment \"'' @ this_displayName @
                       ''\" does not match the expectation.'',
                     ''Expected: '' @ expected,
                     ''Actual: '' @ this_ratingHash,
                     ''Either update the `expectedRatingHash` field in the config or '' @
                       ''revert the ratings back to their previous configuration'']) None)
          else Inr ())"

fun resolveAnalysisPrompts_loop ::
  "outside \<Rightarrow> analysis_prompt_config list \<Rightarrow> analysis_prompt list \<Rightarrow>
   thrown + analysis_prompt list" where
  "resolveAnalysisPrompts_loop out [] result = Inr result"
| "resolveAnalysisPrompts_loop out (c # cs) result =
     (case renderEnvironmentPrompt out (analysisPath c) of
        Inl e \<Rightarrow> Inl e
      | Inr rendered \<Rightarrow>
          resolveAnalysisPrompts_loop out cs
            (result @ [\<lparr>analysisPromptName = analysisName c,
                         analysisPromptText = renderResult rendered\<rparr>]))"

definition resolveAnalysisPrompts ::
  "outside \<Rightarrow> environment_config \<Rightarrow> thrown + analysis_prompt list" where
  "resolveAnalysisPrompts out config =
     (case analysisPrompts config of
        None \<Rightarrow> Inr []
      | Some cs \<Rightarrow> resolveAnalysisPrompts_loop out cs [])"

definition environment_generateId :: "outside \<Rightarrow> string \<Rightarrow> thrown + string" where
  "environment_generateId out name =
     (case generateId out name of
        None \<Rightarrow> Inl (Thrown UserFacingError
                  (''Could not auto-generate an ID from \"'' @ name @ ''\"'') None)
      | Some i \<Rightarrow> Inr i)"

text \<open>
  The constructor, in the order of its assignments; \<open>environment_id\<close> is
  \<^verbatim>\<open>config.id || this.generateId(config.displayName)\<close>. The framework names, the
  rating prompt path and the other plain copies of configuration fields cannot fail
  and are left out.
\<close>

definition environment_id :: "outside \<Rightarrow> environment_config \<Rightarrow> thrown + string" where
  "environment_id out config =
     (case configId config of
        Some i \<Rightarrow> if i \<noteq> [] then Inr i else environment_generateId out (displayName config)
      | None \<Rightarrow> environment_generateId out (displayName config))"

definition new_Environment :: "outside \<Rightarrow> environment_config \<Rightarrow> thrown + environment" where
  "new_Environment out config =
     (case environment_id out config of
        Inl e \<Rightarrow> Inl e
      | Inr this_id \<Rightarrow>
     (let this_ratingCategories = getRatingCategories config in
      case resolveRatings config of
        Inl e \<Rightarrow> Inl e
      | Inr this_ratings \<Rightarrow>
     (let this_ratingHash = getRatingHash out this_ratings this_ratingCategories in
      case resolveAnalysisPrompts out config of
        Inl e \<Rightarrow> Inl e
      | Inr this_analysisPrompts \<Rightarrow>
     (case validateRatingHash (displayName config) this_ratingHash this_ratingHash config of
        Inl e \<Rightarrow> Inl e
      | Inr _ \<Rightarrow>
          Inr \<lparr>envId = this_id,
               envDisplayName = displayName config,
               ratingCategories = this_ratingCategories,
               envRatings = this_ratings,
               ratingHash = this_ratingHash,
               envAnalysisPrompts = this_analysisPrompts\<rparr>))))"

section \<open>Multi-step prompts\<close>

datatype system_prompt_type = Generation | Editing

record 'm prompt_definition =
  promptName :: string
  prompt :: string
  promptRatings :: "rating list"
  systemPromptType :: system_prompt_type
  contextFilePatterns :: "string list"
  metadata :: "'m option"

record 'm multi_step_prompt =
  directoryPath :: string
  stepRatings :: "string \<Rightarrow> rating list option"
  stepMetadata :: "string \<Rightarrow> 'm option"

record 'm multi_step_prompt_definition =
  multiStepName :: string
  steps :: "'m prompt_definition list"

text \<open>
  \<^verbatim>\<open>name.match(/^step-(\d+)/)\<close>: the result is the first group, the longest run of
  digits after the prefix, or \<open>None\<close> when the name does not match.
\<close>

definition is_digit :: "char \<Rightarrow> bool" where
  "is_digit c = (48 \<le> (of_char c :: nat) \<and> (of_char c :: nat) \<le> 57)"

definition stepRegex_match :: "string \<Rightarrow> string option" where
  "stepRegex_match s =
     (if take 5 s = ''step-'' \<and> takeWhile is_digit (drop 5 s) \<noteq> []
      then Some (takeWhile is_digit (drop 5 s)) else None)"

text \<open>
  \<^verbatim>\<open>parseInt\<close> on a string of digits. The result is exact here; the source's number
  is a double, exact up to \<open>2\<^sup>5\<^sup>3\<close>.
\<close>

definition digit_value :: "char \<Rightarrow> nat" where
  "digit_value c = of_char c - 48"

definition parseInt :: "string \<Rightarrow> nat" where
  "parseInt ds = foldl (\<lambda>n c. 10 * n + digit_value c) 0 ds"

definition getSinglePromptDefinition ::
  "outside \<Rightarrow> string \<Rightarrow> string \<Rightarrow> rating list \<Rightarrow> bool \<Rightarrow> 'm option \<Rightarrow>
   thrown + 'm prompt_definition" where
  "getSinglePromptDefinition out name relativePath rs isEditing md =
     (case renderEnvironmentPrompt out relativePath of
        Inl e \<Rightarrow> Inl e
      | Inr rendered \<Rightarrow>
          Inr \<lparr>promptName = name,
               prompt = renderResult rendered,
               promptRatings = rs,
               systemPromptType = (if isEditing then Editing else Generation),
               contextFilePatterns = renderContextFiles rendered,
               metadata = md\<rparr>)"

text \<open>
  One round of \<^verbatim>\<open>for (const current of entities)\<close>: the checks on the entry, then
  the step number and the step definition that the round adds.
\<close>

definition multi_step_entry ::
  "outside \<Rightarrow> 'm multi_step_prompt \<Rightarrow> string \<Rightarrow> rating list \<Rightarrow> dirent \<Rightarrow>
   thrown + nat \<times> 'm prompt_definition" where
  "multi_step_entry out def name envRs current =
     (if \<not> isFile current
      then Inl (Thrown UserFacingError
             (''Multi-step prompt directory can only contain files. '' @
              entryName current @ '' is not a file.'') None)
      else (case stepRegex_match (entryName current) of
        None \<Rightarrow>
          Inl (Thrown UserFacingError
            (''Multi-step prompt name must be in the form of `step-<number>`, '' @
             ''but received '' @ [CHR 0x27] @ entryName current @ [CHR 0x27]) None)
      | Some match1 \<Rightarrow>
          (let rs = (case stepRatings def (entryName current) of
                       Some srs \<Rightarrow> srs @ envRs
                     | None \<Rightarrow> envRs);
               md = stepMetadata def (entryName current);
               stepNum = parseInt match1
           in if stepNum = 0
              then Inl (Thrown UserFacingError ''Multi-step prompts start with `step-1`.'' None)
              else map_sum id (Pair stepNum)
                     (getSinglePromptDefinition out
                        (name @ ''-step-'' @ decimal stepNum)
                        (path_join out (directoryPath def) (entryName current))
                        rs (stepNum \<noteq> 1) md))))"

text \<open>
  The loop, with the two variables it updates: \<open>steps\<close> and the object \<open>stepValues\<close>
  (a map from step name to step number). A round that throws ends the loop.
\<close>

fun getMultiStepPrompt_loop ::
  "outside \<Rightarrow> 'm multi_step_prompt \<Rightarrow> string \<Rightarrow> rating list \<Rightarrow> dirent list \<Rightarrow>
   'm prompt_definition list \<Rightarrow> (string \<rightharpoonup> nat) \<Rightarrow>
   thrown + 'm prompt_definition list \<times> (string \<rightharpoonup> nat)" where
  "getMultiStepPrompt_loop out def name envRs [] stps stepValues = Inr (stps, stepValues)"
| "getMultiStepPrompt_loop out def name envRs (current # rest) stps stepValues =
     (case multi_step_entry out def name envRs current of
        Inl e \<Rightarrow> Inl e
      | Inr (stepNum, step) \<Rightarrow>
          getMultiStepPrompt_loop out def name envRs rest
            (stps @ [step]) (stepValues(promptName step \<mapsto> stepNum)))"

text \<open>
  The key of the final sort, \<^verbatim>\<open>stepValues[a.name] - stepValues[b.name]\<close>. Every step
  in the list has its name in \<open>stepValues\<close> (lemma \<open>stepValues_of_steps\<close> below), so
  the second case is never used. \<^verbatim>\<open>Array.prototype.sort\<close> is stable.
\<close>

definition stepValue :: "(string \<rightharpoonup> nat) \<Rightarrow> 'm prompt_definition \<Rightarrow> nat" where
  "stepValue stepValues a = (case stepValues (promptName a) of Some n \<Rightarrow> n | None \<Rightarrow> 0)"

definition getMultiStepPrompt ::
  "outside \<Rightarrow> string \<Rightarrow> 'm multi_step_prompt \<Rightarrow> rating list \<Rightarrow>
   thrown + 'm multi_step_prompt_definition" where
  "getMultiStepPrompt out rootPath def envRs =
     (let promptRoot = path_resolve out rootPath (directoryPath def);
          name = path_basename out promptRoot
      in case statSync_isDirectory out promptRoot of
           Inl e \<Rightarrow> Inl e
         | Inr isDir \<Rightarrow>
             if \<not> isDir
             then Inl (Thrown UserFacingError
                    (''Multi-step prompt root must point to a directory. \"'' @ promptRoot @
                     ''\" is not a directory.'') None)
             else (case readdirSync out promptRoot of
               Inl e \<Rightarrow> Inl e
             | Inr entities \<Rightarrow>
                 if entities = []
                 then Inl (Thrown UserFacingError
                        ''Multi-step prompt directory cannot be empty.'' None)
                 else (case getMultiStepPrompt_loop out def name envRs entities [] Map.empty of
                   Inl e \<Rightarrow> Inl e
                 | Inr (stps, stepValues) \<Rightarrow>
                     Inr \<lparr>multiStepName = name,
                          steps = sort_key (stepValue stepValues) stps\<rparr>)))"

section \<open>The run orchestrator\<close>

datatype concurrency_option = Auto | Fixed nat

text \<open>
  The options of \<^verbatim>\<open>AssessmentConfig\<close> that the modelled part of
  \<^verbatim>\<open>generateCodeAndAssess\<close> reads. \<open>promptTimeoutRetries\<close> is optional and is any
  integer.
\<close>

record assessment_config =
  concurrency :: concurrency_option
  promptTimeoutRetries :: "int option"
  labels :: "string list"
  promptFilter :: "string option"

text \<open>
  An \<^verbatim>\<open>AssessmentResult\<close>: the orchestrator reads \<^verbatim>\<open>promptDef.name\<close> only; what the
  job executor adds is in the record's extension.
\<close>

record assessment_result =
  promptDef_name :: string
  promptDef_prompt :: string

record failed_prompt =
  failedPromptName :: string
  failedError :: string
  failedStack :: "string option"

text \<open>
  One call of \<^verbatim>\<open>evaluate\<close> meets three collaborators: \<^verbatim>\<open>initializeEval\<close>, the job
  executor under \<^verbatim>\<open>callWithTimeout\<close> (a timeout is a thrown \<open>TimeoutError\<close>), and
  \<^verbatim>\<open>finalizeEval\<close>, whose failure is logged and dropped.
\<close>

record 'z attempt_outcomes =
  initializeEval :: "thrown + nat"
  callWithTimeout :: "thrown + 'z assessment_result_scheme list"
  finalizeEval :: "thrown option"

definition evaluate :: "'z attempt_outcomes \<Rightarrow> thrown + 'z assessment_result_scheme list" where
  "evaluate a =
     (case initializeEval a of
        Inl e \<Rightarrow> Inl e
      | Inr evalID \<Rightarrow>
          (case finalizeEval a of
             None \<Rightarrow> callWithTimeout a
           | Some _ \<Rightarrow> callWithTimeout a))"

text \<open>
  What one unit of work of the outer queue leaves behind: \<open>promptResults\<close>
  (\<open>None\<close> is \<^verbatim>\<open>null\<close>), the entries it pushed onto \<^verbatim>\<open>failedPrompts\<close>, and how
  many times it called \<^verbatim>\<open>evaluate\<close>.
\<close>

record 'z job =
  promptResults :: "'z assessment_result_scheme list option"
  pushed :: "failed_prompt list"
  evaluations :: nat

text \<open>
  The retry loop \<^verbatim>\<open>for (let attemptIdx = 0; attemptIdx < maxAttempts; attemptIdx++)\<close>.
  \<open>errorText\<close> is the text of \<^verbatim>\<open>`${e}`\<close>; \<open>outcomes k\<close> is what the \<open>k\<close>-th call of
  \<^verbatim>\<open>evaluate\<close> meets.
\<close>

function attempt_loop ::
  "(thrown \<Rightarrow> string) \<Rightarrow> string \<Rightarrow> (nat \<Rightarrow> 'z attempt_outcomes) \<Rightarrow> int \<Rightarrow> nat \<Rightarrow> 'z job" where
  "attempt_loop errorText name outcomes maxAttempts attemptIdx =
     (if int attemptIdx < maxAttempts
      then (case evaluate (outcomes attemptIdx) of
              Inr rs \<Rightarrow> \<lparr>promptResults = Some rs, pushed = [], evaluations = 1\<rparr>
            | Inl e \<Rightarrow>
                if instanceof_TimeoutError e \<and> int attemptIdx < maxAttempts - 1
                then (let j = attempt_loop errorText name outcomes maxAttempts (attemptIdx + 1)
                      in j\<lparr>evaluations := evaluations j + 1\<rparr>)
                else \<lparr>promptResults = Some [],
                      pushed = [\<lparr>failedPromptName = name,
                                 failedError = errorText e,
                                 failedStack = (if instanceof_Error e then stack e else None)\<rparr>],
                      evaluations = 1\<rparr>)
      else \<lparr>promptResults = None, pushed = [], evaluations = 0\<rparr>)"
  by pat_completeness auto
termination
  by (relation "measure (\<lambda>(errorText, name, outcomes, maxAttempts, attemptIdx).
                  nat (maxAttempts - int attemptIdx))") auto

declare attempt_loop.simps [simp del]

definition maxAttempts_of :: "assessment_config \<Rightarrow> int" where
  "maxAttempts_of options = nullish (promptTimeoutRetries options) 0 + 1"

definition prompt_job ::
  "(thrown \<Rightarrow> string) \<Rightarrow> assessment_config \<Rightarrow> string \<Rightarrow> (nat \<Rightarrow> 'z attempt_outcomes) \<Rightarrow> 'z job" where
  "prompt_job errorText options name outcomes =
     attempt_loop errorText name outcomes (maxAttempts_of options) 0"

text \<open>
  Pool sizes. \<^verbatim>\<open>Math.floor(n * 0.8)\<close> and \<^verbatim>\<open>Math.floor(n * 0.5)\<close> are taken over the
  reals (the source multiplies doubles); \<^verbatim>\<open>Infinity\<close> is \<open>\<infinity>\<close>.
\<close>

definition appConcurrency :: "assessment_config \<Rightarrow> nat \<Rightarrow> nat" where
  "appConcurrency options availableParallelism =
     (case concurrency options of
        Auto \<Rightarrow> nat \<lfloor>real availableParallelism * 0.8\<rfloor>
      | Fixed n \<Rightarrow> n)"

definition workerConcurrency :: "assessment_config \<Rightarrow> nat \<Rightarrow> enat" where
  "workerConcurrency options availableParallelism =
     (case concurrency options of
        Auto \<Rightarrow> enat (nat \<lfloor>real (appConcurrency options availableParallelism) * 0.5\<rfloor>)
      | Fixed n \<Rightarrow> \<infinity>)"

text \<open>
  Modelled from the spec: the pool of \<^verbatim>\<open>p-queue\<close> (a dependency, not part of the
  sources). A pool with a concurrency limit holds waiting operations and runs some:
  an operation is admitted only while fewer than the limit are running.
\<close>

record pool =
  waiting :: nat
  running :: nat

inductive pool_step :: "enat \<Rightarrow> pool \<Rightarrow> pool \<Rightarrow> bool" for limit :: enat where
  add: "pool_step limit q (q\<lparr>waiting := waiting q + 1\<rparr>)"
| admit: "0 < waiting q \<Longrightarrow> enat (running q) < limit \<Longrightarrow>
          pool_step limit q (q\<lparr>waiting := waiting q - 1, running := running q + 1\<rparr>)"
| settle: "0 < running q \<Longrightarrow> pool_step limit q (q\<lparr>running := running q - 1\<rparr>)"

inductive pool_reachable :: "enat \<Rightarrow> pool \<Rightarrow> bool" for limit :: enat where
  init: "pool_reachable limit \<lparr>waiting = 0, running = 0\<rparr>"
| step: "pool_reachable limit q \<Longrightarrow> pool_step limit q q' \<Longrightarrow> pool_reachable limit q'"

text \<open>
  What the run meets outside the retry loop. \<open>preparation\<close> is the failure, if any, of
  the calls before the prompt check (\<^verbatim>\<open>assertValidModelName\<close>, the prompt resolution,
  the construction of the runners), \<open>startMcp\<close> that of \<^verbatim>\<open>startMcpServerHost\<close>,
  \<open>completion\<close> that of the calls after the jobs (\<^verbatim>\<open>collectMcpServerLogs\<close>,
  \<^verbatim>\<open>prepareSummary\<close>, the system prompts). \<open>finishedAt i\<close> is the time at which job
  \<open>i\<close> settles: the jobs run concurrently and settle in any order.
  \<open>collationKey\<close> is the order of \<^verbatim>\<open>localeCompare\<close>: \<^verbatim>\<open>a.localeCompare(b)\<close> is
  negative, zero or positive as the key of \<open>a\<close> is below, equal to or above that of \<open>b\<close>.
\<close>

record ('z, 'k) run_outcomes =
  errorText :: "thrown \<Rightarrow> string"
  collationKey :: "string \<Rightarrow> 'k"
  preparation :: "thrown option"
  startMcp :: "thrown option"
  attemptsOf :: "nat \<Rightarrow> nat \<Rightarrow> 'z attempt_outcomes"
  finishedAt :: "nat \<Rightarrow> nat"
  completion :: "thrown option"

text \<open>
  The fields of \<^verbatim>\<open>RunInfo\<close> that depend on the jobs and on the options: \<^verbatim>\<open>results\<close>,
  \<^verbatim>\<open>details.summary.completionStats\<close> and \<^verbatim>\<open>details.labels\<close>.
\<close>

record 'z run_info =
  results :: "'z assessment_result_scheme list"
  allPromptsCount :: nat
  failedPrompts :: "failed_prompt list"
  runLabels :: "string list"

definition all_jobs ::
  "('z, 'k) run_outcomes \<Rightarrow> assessment_config \<Rightarrow> string list \<Rightarrow> 'z job list" where
  "all_jobs w options promptsToProcess =
     map (\<lambda>i. prompt_job (errorText w) options (promptsToProcess ! i) (attemptsOf w i))
         [0..<length promptsToProcess]"

definition settle_order :: "('z, 'k) run_outcomes \<Rightarrow> nat \<Rightarrow> nat list" where
  "settle_order w n = sort_key (finishedAt w) [0..<n]"

text \<open>
  \<^verbatim>\<open>generateCodeAndAssess\<close> from the resolved prompts on; \<open>promptsToProcess\<close> lists the
  names of the root prompts. A unit of work whose loop leaves \<^verbatim>\<open>null\<close> rejects, and
  \<^verbatim>\<open>Promise.all\<close> rejects with the first rejection. \<^verbatim>\<open>Promise.all\<close> lists the
  results of the units in the order of submission; \<^verbatim>\<open>failedPrompts\<close> is filled in the
  order in which the jobs fail.
\<close>

definition generateCodeAndAssess ::
  "('z, 'k::linorder) run_outcomes \<Rightarrow> assessment_config \<Rightarrow> string \<Rightarrow> string list \<Rightarrow>
   thrown + 'z run_info" where
  "generateCodeAndAssess w options envName promptsToProcess =
     (case preparation w of
        Some e \<Rightarrow> Inl e
      | None \<Rightarrow>
     (if promptsToProcess = []
      then Inl (Thrown UserFacingError
             (''No prompts have been configured for environment '' @ [CHR 0x27] @ envName @
              [CHR 0x27] @
              (case promptFilter options of
                 Some f \<Rightarrow> if f \<noteq> [] then '' and filtered by '' @ [CHR 0x27] @ f @ [CHR 0x27] @ ''.''
                           else ''.''
               | None \<Rightarrow> ''.'')) None)
      else (case startMcp w of
        Some e \<Rightarrow> Inl e
      | None \<Rightarrow>
     (let jobs = all_jobs w options promptsToProcess
      in case find (\<lambda>i. promptResults (jobs ! i) = None)
                   (settle_order w (length promptsToProcess)) of
           Some i \<Rightarrow>
             Inl (Thrown OtherError
               (''Unexpected code path. There were '' @ number_string (maxAttempts_of options) @
                '' attempts for evaluating: '' @ promptsToProcess ! i) None)
         | None \<Rightarrow>
             (let rs = sort_key (\<lambda>a. collationKey w (promptDef_name a))
                         (concat (map (\<lambda>j. case promptResults j of Some r \<Rightarrow> r | None \<Rightarrow> []) jobs))
              in case completion w of
                   Some e \<Rightarrow> Inl e
                 | None \<Rightarrow>
                     Inr \<lparr>results = rs,
                          allPromptsCount = length promptsToProcess,
                          failedPrompts =
                            concat (map (\<lambda>i. pushed (jobs ! i))
                                        (settle_order w (length promptsToProcess))),
                          runLabels = Array_from (new_Set (labels options))\<rparr>)))))"

section \<open>The evaluation job executor\<close>

record response_file =
  filePath :: string
  code :: string

text \<open>
  The response of \<^verbatim>\<open>generateInitialFiles\<close>; \<open>toolLogs\<close> is optional. Tool logs are
  kept as text.
\<close>

record files_response =
  files :: "response_file list"
  toolLogs :: "string list option"

text \<open>
  What the \<open>i\<close>-th round of the step loop meets. \<open>generateInitialFiles\<close> rejects, or
  resolves with a response, or resolves with nothing (\<open>Inr None\<close>);
  \<open>attemptBuildAndTest\<close> resolves with an attempt or with nothing.
\<close>

record ('b, 's, 'u) step_outcomes =
  getPrompt :: "thrown + string \<times> string"
  resolveContextFiles :: "thrown option"
  generateInitialFiles :: "thrown + files_response option"
  writeResponseFiles :: "thrown option"
  writeStepResponseFiles :: "thrown option"
  generateUserJourneysForApp :: "thrown + 'u"
  attemptBuildAndTest :: "thrown + 'b option"
  rateGeneratedCode :: "thrown + 's"

record ('b, 's, 'u) step_result = assessment_result +
  finalAttempt :: 'b
  score :: 's
  userJourneys :: "'u option"
  resultToolLogs :: "string list"

datatype 'm root_prompt_definition =
  Single "'m prompt_definition"
| MultiStep string "'m prompt_definition list"

fun rootPromptName :: "'m root_prompt_definition \<Rightarrow> string" where
  "rootPromptName (Single d) = promptName d"
| "rootPromptName (MultiStep n ds) = n"

fun defsToExecute :: "'m root_prompt_definition \<Rightarrow> 'm prompt_definition list" where
  "defsToExecute (Single d) = [d]"
| "defsToExecute (MultiStep n ds) = ds"

fun is_multi_step :: "'m root_prompt_definition \<Rightarrow> bool" where
  "is_multi_step (Single d) = False"
| "is_multi_step (MultiStep n ds) = True"

text \<open>What the executor does that a caller can observe besides its result.\<close>

datatype event =
  LogError string string
| CleanupCalled

text \<open>
  Reading \<^verbatim>\<open>initialResponse.toolLogs\<close>: a property read on \<^verbatim>\<open>null\<close> or
  \<^verbatim>\<open>undefined\<close> throws a \<^verbatim>\<open>TypeError\<close> (the message is the engine's).
\<close>

definition read_toolLogs :: "files_response option \<Rightarrow> thrown + string list option" where
  "read_toolLogs initialResponse =
     (case initialResponse of
        None \<Rightarrow> Inl (Thrown TypeError
                  ''Cannot read properties of undefined (reading 'toolLogs')'' None)
      | Some r \<Rightarrow> Inr (toolLogs r))"

definition write_files ::
  "bool \<Rightarrow> ('b, 's, 'u) step_outcomes \<Rightarrow> thrown option" where
  "write_files multi o' =
     (case writeResponseFiles o' of
        Some e \<Rightarrow> Some e
      | None \<Rightarrow> if multi then writeStepResponseFiles o' else None)"

definition failed_to_generate :: string where
  "failed_to_generate = ''Failed to generate initial code using AI. Skipping this app.''"

text \<open>
  The body of \<^verbatim>\<open>for (const promptDef of defsToExecute)\<close>, statement by statement.
  The result is what leaves the loop (\<open>Inl\<close>: an exception that nothing in
  \<^verbatim>\<open>startEvaluationTask\<close> catches; \<open>Inr\<close>: the results so far, after the last round
  or a \<^verbatim>\<open>break\<close>) and the events so far. \<open>i\<close> counts the rounds.
\<close>

fun step_loop ::
  "bool \<Rightarrow> bool \<Rightarrow> bool \<Rightarrow> (nat \<Rightarrow> ('b, 's, 'u) step_outcomes) \<Rightarrow> nat \<Rightarrow>
   'm prompt_definition list \<Rightarrow> ('b, 's, 'u) step_result list \<Rightarrow> event list \<Rightarrow>
   (thrown + ('b, 's, 'u) step_result list) \<times> event list" where
  "step_loop multi enableUserJourneyTesting cujGenerationLlm w i [] rs tr = (Inr rs, tr)"
| "step_loop multi enableUserJourneyTesting cujGenerationLlm w i (promptDef # rest) rs tr =
     (case getPrompt (w i) of
        Inl e \<Rightarrow> (Inl e, tr)
      | Inr (fullPromptText, systemInstructions) \<Rightarrow>
     (case resolveContextFiles (w i) of
        Some e \<Rightarrow> (Inl e, tr)
      | None \<Rightarrow>
     (case generateInitialFiles (w i) of
        Inl e \<Rightarrow> (Inl e, tr)
      | Inr initialResponse \<Rightarrow>
     (case read_toolLogs initialResponse of
        Inl e \<Rightarrow> (Inl e, tr)
      | Inr logs \<Rightarrow>
     (let tls = nullish logs []
      in case initialResponse of
        None \<Rightarrow> (Inr rs, tr @ [LogError (promptName promptDef) failed_to_generate, CleanupCalled])
      | Some response \<Rightarrow>
     (case write_files multi (w i) of
        Some e \<Rightarrow> (Inr rs, tr @ [LogError (promptName promptDef) failed_to_generate, CleanupCalled])
      | None \<Rightarrow>
     (case (if enableUserJourneyTesting
            then (if cujGenerationLlm
                  then map_sum id Some (generateUserJourneysForApp (w i))
                  else Inl (Thrown OtherError
                         ''Expected a CUJ generation LLM to be available.'' None))
            else Inr None) of
        Inl e \<Rightarrow> (Inl e, tr)
      | Inr journeys \<Rightarrow>
     (case attemptBuildAndTest (w i) of
        Inl e \<Rightarrow> (Inl e, tr)
      | Inr None \<Rightarrow> (Inr rs, tr @ [CleanupCalled])
      | Inr (Some attempt) \<Rightarrow>
     (case rateGeneratedCode (w i) of
        Inl e \<Rightarrow> (Inl e, tr)
      | Inr sc \<Rightarrow>
          step_loop multi enableUserJourneyTesting cujGenerationLlm w (i + 1) rest
            (rs @ [\<lparr>promptDef_name = promptName promptDef,
                    promptDef_prompt = prompt promptDef,
                    finalAttempt = attempt,
                    score = sc,
                    userJourneys = journeys,
                    resultToolLogs = tls\<rparr>]) tr)))))))))"

text \<open>
  \<^verbatim>\<open>startEvaluationTask\<close>: the project is set up once, the loop runs, and the two
  statements after the loop (\<^verbatim>\<open>await cleanup(); return results\<close>) run when the loop
  ends or breaks. There is no \<^verbatim>\<open>try\<close> around the loop.
\<close>

definition startEvaluationTask ::
  "bool \<Rightarrow> bool \<Rightarrow> thrown option \<Rightarrow> (nat \<Rightarrow> ('b, 's, 'u) step_outcomes) \<Rightarrow>
   'm root_prompt_definition \<Rightarrow>
   (thrown + ('b, 's, 'u) step_result list) \<times> event list" where
  "startEvaluationTask enableUserJourneyTesting cujGenerationLlm setupProjectStructure w
     rootPromptDef =
     (case setupProjectStructure of
        Some e \<Rightarrow> (Inl e, [])
      | None \<Rightarrow>
          (case step_loop (is_multi_step rootPromptDef) enableUserJourneyTesting
                  cujGenerationLlm w 0 (defsToExecute rootPromptDef) [] [] of
             (Inl e, tr) \<Rightarrow> (Inl e, tr)
           | (Inr rs, tr) \<Rightarrow> (Inr rs, tr @ [CleanupCalled])))"

section \<open>The AI SDK runner\<close>









record files_request =
  filesModel :: string
  executablePrompt :: string
  systemInstructions :: string



section \<open>Sample inputs\<close>

text \<open>
  Concrete inputs on which the theorems below are instantiated: a run of three prompts
  with one retry, in which \<open>beta\<close> times out twice, \<open>alpha\<close> succeeds, and \<open>gamma\<close>
  times out once and then succeeds; the jobs settle in reverse order of submission.
\<close>

definition sample_timeout :: thrown where
  "sample_timeout =
     Thrown TimeoutError ''Evaluation of prompt timed out'' (Some ''at callWithTimeout'')"

definition sample_result :: "string \<Rightarrow> assessment_result" where
  "sample_result n = \<lparr>promptDef_name = n, promptDef_prompt = ''Build '' @ n\<rparr>"

definition sample_attempt :: "thrown + assessment_result list \<Rightarrow> unit attempt_outcomes" where
  "sample_attempt r = \<lparr>initializeEval = Inr 7, callWithTimeout = r, finalizeEval = None\<rparr>"

definition sample_run :: "(unit, string) run_outcomes" where
  "sample_run =
     \<lparr>errorText = (\<lambda>e. ''Error: '' @ message e),
      collationKey = (\<lambda>s. s),
      preparation = None,
      startMcp = None,
      attemptsOf = (\<lambda>i k. if i = 0 then sample_attempt (Inl sample_timeout)
                          else if i = 1 then sample_attempt (Inr [sample_result ''alpha''])
                          else if k = 0 then sample_attempt (Inl sample_timeout)
                          else sample_attempt (Inr [sample_result ''gamma''])),
      finishedAt = (\<lambda>i. 2 - i),
      completion = None\<rparr>"

definition sample_options :: assessment_config where
  "sample_options =
     \<lparr>concurrency = Auto, promptTimeoutRetries = Some 1, labels = [''x'', ''y'', ''x''],
      promptFilter = None\<rparr>"

definition sample_failure :: failed_prompt where
  "sample_failure =
     \<lparr>failedPromptName = ''beta'',
      failedError = ''Error: Evaluation of prompt timed out'',
      failedStack = Some ''at callWithTimeout''\<rparr>"

definition sample_info :: "unit run_info" where
  "sample_info =
     \<lparr>results = [sample_result ''alpha'', sample_result ''gamma''],
      allPromptsCount = 3,
      failedPrompts = [sample_failure],
      runLabels = [''x'', ''y'']\<rparr>"

text \<open>
  An outside world for the environment: the hash is a stand-in that wraps its input,
  the file \<open>missing.md\<close> cannot be read, and the prompt directory lists \<open>entries\<close>.
\<close>

definition sample_outside :: "dirent list \<Rightarrow> outside" where
  "sample_outside entries =
     \<lparr>getSha256Hash = (\<lambda>s. ''sha256('' @ s @ '')''),
      generateId = (\<lambda>s. Some s),
      path_resolve = (\<lambda>a b. a @ ''/'' @ b),
      path_basename = (\<lambda>p. rev (takeWhile (\<lambda>c. c \<noteq> CHR ''/'') (rev p))),
      path_join = (\<lambda>a b. a @ ''/'' @ b),
      statSync_isDirectory = (\<lambda>p. Inr True),
      readdirSync = (\<lambda>p. Inr entries),
      renderEnvironmentPrompt =
        (\<lambda>p. if p = ''missing.md''
             then Inl (Thrown OtherError ''ENOENT: no such file or directory'' None)
             else Inr \<lparr>renderResult = ''prompt of '' @ p, renderContextFiles = []\<rparr>)\<rparr>"

definition sample_rating :: "string list option \<Rightarrow> rating" where
  "sample_rating ls =
     \<lparr>category = HIGH_IMPACT, scoreReduction = ''10%'', ratingId = ''a11y'',
      groupingLabels = ls\<rparr>"

definition sample_config ::
  "rating list \<Rightarrow> string option \<Rightarrow> analysis_prompt_config list option \<Rightarrow> environment_config" where
  "sample_config rs expected analysis =
     \<lparr>displayName = ''Demo'', configId = Some ''demo'', ratings = rs, ratingOverrides = None,
      categoryOverrides = None, expectedRatingHash = expected, analysisPrompts = analysis\<rparr>"

definition sample_categories :: "rating_category \<Rightarrow> category_config" where
  "sample_categories = getRatingCategories (sample_config [] None None)"

definition sample_file :: "string \<Rightarrow> dirent" where
  "sample_file n = \<lparr>entryName = n, isFile = True\<rparr>"

definition sample_multi_step :: "unit multi_step_prompt" where
  "sample_multi_step =
     \<lparr>directoryPath = ''wizard'', stepRatings = (\<lambda>n. None), stepMetadata = (\<lambda>n. None)\<rparr>"

definition sample_step :: "string \<Rightarrow> string \<Rightarrow> system_prompt_type \<Rightarrow> unit prompt_definition" where
  "sample_step n file t =
     \<lparr>promptName = n, prompt = ''prompt of wizard/'' @ file, promptRatings = [],
      systemPromptType = t, contextFilePatterns = [], metadata = None\<rparr>"

text \<open>
  A round of the step loop in which everything succeeds but for the outcome \<open>g\<close> of
  \<^verbatim>\<open>generateInitialFiles\<close>.
\<close>

definition sample_round ::
  "thrown + files_response option \<Rightarrow> (unit, unit, unit) step_outcomes" where
  "sample_round g =
     \<lparr>getPrompt = Inr (''full prompt'', ''system instructions''),
      resolveContextFiles = None,
      generateInitialFiles = g,
      writeResponseFiles = None,
      writeStepResponseFiles = None,
      generateUserJourneysForApp = Inr (),
      attemptBuildAndTest = Inr (Some ()),
      rateGeneratedCode = Inr ()\<rparr>"

definition sample_prompt :: "unit root_prompt_definition" where
  "sample_prompt = Single (sample_step ''todo-app'' ''todo-app.md'' Generation)"

definition sample_rejection :: thrown where
  "sample_rejection = Thrown OtherError ''503 Service Unavailable'' None"



section \<open>Properties\<close>

subsection \<open>Label deduplication\<close>

lemma foldl_Set_add_set: "set (foldl Set_add s xs) = set s \<union> set xs"
  by (induction xs arbitrary: s) (auto simp: Set_add_def)

lemma foldl_Set_add_distinct: "distinct s \<Longrightarrow> distinct (foldl Set_add s xs)"
  by (induction xs arbitrary: s) (auto simp: Set_add_def)

lemma foldl_Set_add_first:
  "distinct s \<Longrightarrow>
   foldl Set_add s xs = s @ first_occurrences (filter (\<lambda>y. y \<notin> set s) xs)"
proof (induction xs arbitrary: s)
  case Nil
  then show ?case by simp
next
  case (Cons x xs)
  show ?case
  proof (cases "x \<in> set s")
    case True
    with Cons show ?thesis by (simp add: Set_add_def)
  next
    case False
    have eq: "filter (\<lambda>y. y \<notin> set (s @ [x])) xs
            = filter (\<lambda>y. y \<noteq> x) (filter (\<lambda>y. y \<notin> set s) xs)"
      by (induction xs) auto
    from False Cons.prems have "distinct (s @ [x])" by simp
    from Cons.IH [OF this] False eq show ?thesis by (simp add: Set_add_def)
  qed
qed

lemma new_Set_first_occurrences: "new_Set xs = first_occurrences xs"
  using foldl_Set_add_first [of "[]" xs] by (simp add: new_Set_def)

subsection \<open>The sample run\<close>

lemma upt3: "[0..<3] = [0, 1, 2]"
  by (simp add: upt_rec)

lemma sample_job0:
  "prompt_job (errorText sample_run) sample_options ''beta'' (attemptsOf sample_run 0)
   = \<lparr>promptResults = Some [], pushed = [sample_failure], evaluations = 2\<rparr>"
  by (simp add: prompt_job_def maxAttempts_of_def sample_options_def nullish_def sample_run_def
      attempt_loop.simps evaluate_def sample_attempt_def sample_timeout_def sample_failure_def
      instanceof_TimeoutError_def instanceof_Error_def)

lemma sample_job1:
  "prompt_job (errorText sample_run) sample_options ''alpha'' (attemptsOf sample_run (Suc 0))
   = \<lparr>promptResults = Some [sample_result ''alpha''], pushed = [], evaluations = 1\<rparr>"
  by (simp add: prompt_job_def maxAttempts_of_def sample_options_def nullish_def sample_run_def
      attempt_loop.simps evaluate_def sample_attempt_def)

lemma sample_job2:
  "prompt_job (errorText sample_run) sample_options ''gamma'' (attemptsOf sample_run (Suc (Suc 0)))
   = \<lparr>promptResults = Some [sample_result ''gamma''], pushed = [], evaluations = 2\<rparr>"
  by (simp add: prompt_job_def maxAttempts_of_def sample_options_def nullish_def sample_run_def
      attempt_loop.simps evaluate_def sample_attempt_def sample_timeout_def
      instanceof_TimeoutError_def)

lemma sample_all_jobs:
  "all_jobs sample_run sample_options [''beta'', ''alpha'', ''gamma'']
   = [\<lparr>promptResults = Some [], pushed = [sample_failure], evaluations = 2\<rparr>,
      \<lparr>promptResults = Some [sample_result ''alpha''], pushed = [], evaluations = 1\<rparr>,
      \<lparr>promptResults = Some [sample_result ''gamma''], pushed = [], evaluations = 2\<rparr>]"
  unfolding all_jobs_def
  by (simp add: upt3 sample_job0 sample_job1 sample_job2)

lemma sample_settle_order:
  "settle_order sample_run (length [''beta'', ''alpha'', ''gamma'']) = [2, 1, 0]"
  by (simp add: settle_order_def upt3 sample_run_def)

lemma sample_run_result:
  "generateCodeAndAssess sample_run sample_options ''Demo'' [''beta'', ''alpha'', ''gamma'']
   = Inr sample_info"
  unfolding generateCodeAndAssess_def sample_all_jobs sample_settle_order Let_def
  by (simp add: sample_run_def sample_result_def sample_options_def Array_from_def new_Set_def
      Set_add_def sample_info_def)

subsection \<open>What a run that returns has done\<close>

lemma generateCodeAndAssess_Inr:
  assumes "generateCodeAndAssess w options envName ps = Inr info"
  shows "preparation w = None \<and> ps \<noteq> [] \<and> startMcp w = None \<and> completion w = None \<and>
         find (\<lambda>i. promptResults (all_jobs w options ps ! i) = None)
              (settle_order w (length ps)) = None \<and>
         info = \<lparr>results = sort_key (\<lambda>a. collationKey w (promptDef_name a))
                         (concat (map (\<lambda>j. case promptResults j of Some r \<Rightarrow> r | None \<Rightarrow> [])
                            (all_jobs w options ps))),
                 allPromptsCount = length ps,
                 failedPrompts = concat (map (\<lambda>i. pushed (all_jobs w options ps ! i))
                                        (settle_order w (length ps))),
                 runLabels = Array_from (new_Set (labels options))\<rparr>"
  using assms unfolding generateCodeAndAssess_def Let_def
  by (simp split: option.splits if_splits)

subsection \<open>C9: the labels of a run\<close>

lemma first_occurrences_set: "set (first_occurrences xs) = set xs"
  by (metis new_Set_first_occurrences new_Set_def foldl_Set_add_set empty_set
      sup_bot.left_neutral)

lemma first_occurrences_distinct: "distinct (first_occurrences xs)"
  by (metis new_Set_first_occurrences new_Set_def foldl_Set_add_distinct distinct.simps(1))

text \<open>
  C9. The labels of the \<^verbatim>\<open>RunDetails\<close> of a run that returns are the configured labels
  without duplicates, each at the place of its first occurrence: the list is that of
  \<open>first_occurrences\<close>, it has no repetition and it holds exactly the configured labels.
\<close>

theorem run_labels_deduplicated:
  assumes "generateCodeAndAssess w options envName ps = Inr info"
  shows "runLabels info = first_occurrences (labels options) \<and>
         distinct (runLabels info) \<and> set (runLabels info) = set (labels options)"
proof -
  from generateCodeAndAssess_Inr [OF assms]
  have "runLabels info = Array_from (new_Set (labels options))" by simp
  then have "runLabels info = first_occurrences (labels options)"
    by (simp add: Array_from_def new_Set_first_occurrences)
  then show ?thesis
    by (simp add: first_occurrences_set first_occurrences_distinct)
qed

theorem run_labels_deduplicated_witness:
  "generateCodeAndAssess sample_run sample_options ''Demo'' [''beta'', ''alpha'', ''gamma'']
     = Inr sample_info \<and>
   runLabels sample_info = [''x'', ''y''] \<and>
   first_occurrences (labels sample_options) = [''x'', ''y''] \<and>
   distinct (runLabels sample_info) \<and>
   set (runLabels sample_info) = set (labels sample_options)"
  using run_labels_deduplicated [OF sample_run_result] sample_run_result
  by (simp add: sample_info_def sample_options_def)

subsection \<open>C3, C4: the rating hash\<close>

lemma sort_mset_cong: "mset xs = mset ys \<Longrightarrow> sort xs = sort ys"
  by (metis sorted_list_of_multiset_mset)

lemma rating_hash_input_perm:
  "mset rs' = mset rs \<Longrightarrow> rating_hash_input rs' categories = rating_hash_input rs categories"
  unfolding rating_hash_input_def
  by (rule arg_cong [where f = "join ''|''"], rule sort_mset_cong) simp

lemma getRatingHash_perm:
  "mset rs' = mset rs \<Longrightarrow> getRatingHash out rs' categories = getRatingHash out rs categories"
  using rating_hash_input_perm [of rs' rs categories] by (simp add: getRatingHash_def)

lemma list_ex_mset_cong: "mset rs' = mset rs \<Longrightarrow> list_ex P rs' = list_ex P rs"
  using mset_eq_setD [of rs' rs] by (simp add: list_ex_iff)

text \<open>The hash that a construction arrives at, or the error that stops it.\<close>

lemma new_Environment_ratingHash:
  "map_sum id ratingHash (new_Environment out config) =
     (case environment_id out config of
        Inl e \<Rightarrow> Inl e
      | Inr i \<Rightarrow>
          (case resolveRatings config of
             Inl e \<Rightarrow> Inl e
           | Inr rs \<Rightarrow>
               (case resolveAnalysisPrompts out config of
                  Inl e \<Rightarrow> Inl e
                | Inr aps \<Rightarrow>
                    (case validateRatingHash (displayName config)
                            (getRatingHash out rs (getRatingCategories config))
                            (getRatingHash out rs (getRatingCategories config)) config of
                       Inl e \<Rightarrow> Inl e
                     | Inr u \<Rightarrow> Inr (getRatingHash out rs (getRatingCategories config))))))"
  unfolding new_Environment_def Let_def
  by (simp split: sum.splits)

lemma resolveRatings_perm:
  assumes "mset rs' = mset (ratings config)"
  shows "(\<exists>e. resolveRatings (config\<lparr>ratings := rs'\<rparr>) = Inl e \<and> resolveRatings config = Inl e)
       \<or> (\<exists>xs' xs. resolveRatings (config\<lparr>ratings := rs'\<rparr>) = Inr xs' \<and>
             resolveRatings config = Inr xs \<and> mset xs' = mset xs)"
proof (cases "ratingOverrides config")
  case None
  with assms show ?thesis by (simp add: resolveRatings_def)
next
  case (Some overrides)
  have ex: "\<And>k. list_ex (\<lambda>r. ratingId r = k) rs' = list_ex (\<lambda>r. ratingId r = k) (ratings config)"
    using assms by (rule list_ex_mset_cong)
  show ?thesis
  proof (cases "find (\<lambda>k. \<not> list_ex (\<lambda>r. ratingId r = k) (ratings config)) (map fst overrides)")
    case None
    with Some ex assms show ?thesis by (simp add: resolveRatings_def)
  next
    case (Some k)
    with \<open>ratingOverrides config = Some overrides\<close> ex show ?thesis
      by (simp add: resolveRatings_def)
  qed
qed

text \<open>
  C3. The rating hash does not depend on the order of the ratings: for a permutation
  \<open>rs'\<close> of the configured ratings, \<^verbatim>\<open>getRatingHash\<close> returns the same hash, and
  the construction of the environment from the permuted configuration arrives at the
  same hash, or stops with the same error.
\<close>

theorem rating_hash_order_independent:
  assumes "mset rs' = mset (ratings config)"
  shows "getRatingHash out rs' categories = getRatingHash out (ratings config) categories \<and>
         map_sum id ratingHash (new_Environment out (config\<lparr>ratings := rs'\<rparr>)) =
         map_sum id ratingHash (new_Environment out config)"
proof
  show "getRatingHash out rs' categories = getRatingHash out (ratings config) categories"
    using assms by (rule getRatingHash_perm)
next
  let ?c = "config\<lparr>ratings := rs'\<rparr>"
  have cats: "getRatingCategories ?c = getRatingCategories config"
    by (rule ext) (simp add: getRatingCategories_def)
  have ident: "environment_id out ?c = environment_id out config"
    by (simp add: environment_id_def split: option.splits)
  have aps: "resolveAnalysisPrompts out ?c = resolveAnalysisPrompts out config"
    by (simp add: resolveAnalysisPrompts_def)
  have val: "\<And>d h. validateRatingHash d h h ?c = validateRatingHash d h h config"
    by (simp add: validateRatingHash_def)
  have dn: "displayName ?c = displayName config" by simp
  from resolveRatings_perm [OF assms]
  show "map_sum id ratingHash (new_Environment out ?c) =
        map_sum id ratingHash (new_Environment out config)"
  proof (elim disjE exE conjE)
    fix e
    assume "resolveRatings ?c = Inl e" "resolveRatings config = Inl e"
    then show ?thesis
      unfolding new_Environment_ratingHash ident
      by (simp split: sum.splits)
  next
    fix xs' xs
    assume r: "resolveRatings ?c = Inr xs'" "resolveRatings config = Inr xs"
      and m: "mset xs' = mset xs"
    have h: "getRatingHash out xs' (getRatingCategories config) =
             getRatingHash out xs (getRatingCategories config)"
      using m by (rule getRatingHash_perm)
    show ?thesis
      unfolding new_Environment_ratingHash ident cats aps dn
      by (simp add: r h val split: sum.splits)
  qed
qed


theorem rating_hash_order_independent_witness:
  "mset [sample_rating None, sample_rating (Some [''x''])]
     = mset (ratings (sample_config [sample_rating (Some [''x'']), sample_rating None] None None)) \<and>
   getRatingHash (sample_outside []) [sample_rating None, sample_rating (Some [''x''])]
       sample_categories
     = getRatingHash (sample_outside []) [sample_rating (Some [''x'']), sample_rating None]
         sample_categories \<and>
   map_sum id ratingHash
     (new_Environment (sample_outside [])
        (sample_config [sample_rating None, sample_rating (Some [''x''])] None None))
     = map_sum id ratingHash
         (new_Environment (sample_outside [])
            (sample_config [sample_rating (Some [''x'']), sample_rating None] None None))"
  using rating_hash_order_independent
    [of "[sample_rating None, sample_rating (Some [''x''])]"
        "sample_config [sample_rating (Some [''x'']), sample_rating None] None None"
        "sample_outside []" sample_categories]
  by (simp add: sample_config_def)

text \<open>
  C4. The string of a rating holds the category, the points of the category, the id and
  the score reduction, but the grouping labels in the order given, not sorted: a
  rating with the labels \<open>b, a\<close> and the same rating with the labels \<open>a, b\<close> give
  different strings, and different inputs to the hash function.
\<close>

theorem rating_part_keeps_label_order:
  "rating_part sample_categories (sample_rating (Some [''b'', ''a'']))
     = ''high-impact;60;a11y;10%;b,a'' \<and>
   rating_part sample_categories (sample_rating (Some [''a'', ''b'']))
     = ''high-impact;60;a11y;10%;a,b'' \<and>
   getRatingHash (sample_outside []) [sample_rating (Some [''b'', ''a''])] sample_categories
     = ''sha256(high-impact;60;a11y;10%;b,a)'' \<and>
   getRatingHash (sample_outside []) [sample_rating (Some [''a'', ''b''])] sample_categories
     = ''sha256(high-impact;60;a11y;10%;a,b)''"
  by (simp add: rating_part_def rating_hash_input_def getRatingHash_def sample_rating_def
      sample_config_def sample_categories_def sample_outside_def
      getRatingCategories_def number_string_def decimal.simps digit_char_def char_of_def bit_0)

subsection \<open>C5: the expected rating hash\<close>

lemma sample_hash:
  "getRatingHash (sample_outside []) [sample_rating None] (getRatingCategories c0)
     = ''sha256(high-impact;'' @ number_string (maxPoints (getRatingCategories c0 HIGH_IMPACT)) @ '';a11y;10%;)''"
  by (simp add: rating_part_def rating_hash_input_def getRatingHash_def sample_rating_def
      sample_outside_def)

lemma sample_hash_default:
  "categoryOverrides c0 = None \<Longrightarrow>
   getRatingHash (sample_outside []) [sample_rating None] (getRatingCategories c0)
     = ''sha256(high-impact;60;a11y;10%;)''"
  by (simp add: sample_hash getRatingCategories_def number_string_def decimal.simps
      digit_char_def char_of_def bit_0)

text \<open>
  C5, as stated, fails in two places. An \<^verbatim>\<open>expectedRatingHash\<close> that is the empty
  string differs from every computed hash, yet the construction succeeds (an empty
  string is falsy). And when an analysis prompt cannot be read, the construction stops
  with that error before the hash is validated.
\<close>

theorem expected_hash_counterexample:
  "expectedRatingHash (sample_config [sample_rating None] (Some []) None) = Some [] \<and>
   new_Environment (sample_outside []) (sample_config [sample_rating None] (Some []) None)
     = Inr \<lparr>envId = ''demo'', envDisplayName = ''Demo'',
            ratingCategories = sample_categories,
            envRatings = [sample_rating None],
            ratingHash = ''sha256(high-impact;60;a11y;10%;)'',
            envAnalysisPrompts = []\<rparr> \<and>
   new_Environment (sample_outside [])
      (sample_config [sample_rating None] (Some ''0000'')
         (Some [\<lparr>analysisName = ''extra'', analysisPath = ''missing.md''\<rparr>]))
     = Inl (Thrown OtherError ''ENOENT: no such file or directory'' None)"
proof -
  have h: "\<And>e a. getRatingHash (sample_outside []) [sample_rating None]
             (getRatingCategories (sample_config [sample_rating None] e a))
           = ''sha256(high-impact;60;a11y;10%;)''"
    by (rule sample_hash_default) (simp add: sample_config_def)
  have c: "\<And>e a. getRatingCategories (sample_config [sample_rating None] e a) = sample_categories"
    by (rule ext) (simp add: sample_categories_def getRatingCategories_def sample_config_def)
  have r: "\<And>e a. resolveRatings (sample_config [sample_rating None] e a) = Inr [sample_rating None]"
    by (simp add: resolveRatings_def sample_config_def)
  have i: "\<And>e a. environment_id (sample_outside []) (sample_config [sample_rating None] e a) = Inr ''demo''"
    by (simp add: environment_id_def sample_config_def)
  have a1: "resolveAnalysisPrompts (sample_outside []) (sample_config [sample_rating None] (Some []) None) = Inr []"
    by (simp add: resolveAnalysisPrompts_def sample_config_def)
  have a2: "resolveAnalysisPrompts (sample_outside [])
      (sample_config [sample_rating None] (Some ''0000'')
         (Some [\<lparr>analysisName = ''extra'', analysisPath = ''missing.md''\<rparr>]))
     = Inl (Thrown OtherError ''ENOENT: no such file or directory'' None)"
    by (simp add: resolveAnalysisPrompts_def sample_config_def sample_outside_def)
  have v: "\<And>d h. validateRatingHash d h h (sample_config [sample_rating None] (Some []) None) = Inr ()"
    by (simp add: validateRatingHash_def sample_config_def)
  have h2: "getRatingHash (sample_outside []) [sample_rating None] sample_categories
            = ''sha256(high-impact;60;a11y;10%;)''"
    using h [of None None] by (simp only: c)
  show ?thesis
    unfolding new_Environment_def Let_def i r a1 a2 c v
    by (simp add: sample_config_def h2)
qed

text \<open>
  C5, amended. When the configuration declares a non-empty \<^verbatim>\<open>expectedRatingHash\<close>
  that differs from the computed hash, and the steps of the constructor before the
  validation succeed, the construction fails with a \<open>UserFacingError\<close> whose message
  has the line \<open>Expected:\<close> with the expected hash and the line \<open>Actual:\<close> with the
  computed one.
\<close>

theorem expected_hash_mismatch_fails:
  assumes "expectedRatingHash config = Some expected"
    and "expected \<noteq> []"
    and "environment_id out config = Inr i"
    and "resolveRatings config = Inr rs"
    and "resolveAnalysisPrompts out config = Inr aps"
    and "expected \<noteq> getRatingHash out rs (getRatingCategories config)"
  shows "new_Environment out config =
           Inl (Thrown UserFacingError
             (join [CHR 0x0A]
                [''Rating hash for environment \"'' @ displayName config @
                   ''\" does not match the expectation.'',
                 ''Expected: '' @ expected,
                 ''Actual: '' @ getRatingHash out rs (getRatingCategories config),
                 ''Either update the `expectedRatingHash` field in the config or '' @
                   ''revert the ratings back to their previous configuration'']) None)"
  using assms unfolding new_Environment_def Let_def validateRatingHash_def
  by simp

theorem expected_hash_mismatch_fails_witness:
  "expectedRatingHash (sample_config [sample_rating None] (Some ''0000'') None) = Some ''0000'' \<and>
   ''0000'' \<noteq> [] \<and>
   environment_id (sample_outside []) (sample_config [sample_rating None] (Some ''0000'') None)
     = Inr ''demo'' \<and>
   resolveRatings (sample_config [sample_rating None] (Some ''0000'') None)
     = Inr [sample_rating None] \<and>
   resolveAnalysisPrompts (sample_outside []) (sample_config [sample_rating None] (Some ''0000'') None)
     = Inr [] \<and>
   getRatingHash (sample_outside []) [sample_rating None]
       (getRatingCategories (sample_config [sample_rating None] (Some ''0000'') None))
     = ''sha256(high-impact;60;a11y;10%;)'' \<and>
   new_Environment (sample_outside []) (sample_config [sample_rating None] (Some ''0000'') None)
     = Inl (Thrown UserFacingError
         (join [CHR 0x0A]
            [''Rating hash for environment \"Demo\" does not match the expectation.'',
             ''Expected: 0000'',
             ''Actual: sha256(high-impact;60;a11y;10%;)'',
             ''Either update the `expectedRatingHash` field in the config or '' @
               ''revert the ratings back to their previous configuration'']) None)"
proof -
  let ?c = "sample_config [sample_rating None] (Some ''0000'') None"
  have e: "expectedRatingHash ?c = Some ''0000''" by (simp add: sample_config_def)
  have i: "environment_id (sample_outside []) ?c = Inr ''demo''"
    by (simp add: environment_id_def sample_config_def)
  have r: "resolveRatings ?c = Inr [sample_rating None]"
    by (simp add: resolveRatings_def sample_config_def)
  have a: "resolveAnalysisPrompts (sample_outside []) ?c = Inr []"
    by (simp add: resolveAnalysisPrompts_def sample_config_def)
  have h: "getRatingHash (sample_outside []) [sample_rating None] (getRatingCategories ?c)
           = ''sha256(high-impact;60;a11y;10%;)''"
    by (rule sample_hash_default) (simp add: sample_config_def)
  have n: "''0000'' \<noteq> getRatingHash (sample_outside []) [sample_rating None] (getRatingCategories ?c)"
    unfolding h by simp
  have d: "displayName ?c = ''Demo''" by (simp add: sample_config_def)
  from expected_hash_mismatch_fails [OF e _ i r a n] e i r a h d
  show ?thesis by simp
qed

subsection \<open>C8: pool sizes\<close>

lemma floor_four_fifths: "nat \<lfloor>real p * 0.8\<rfloor> = 4 * p div 5"
proof -
  have "real p * 0.8 = real (4 * p) / real 5" by simp
  then have "\<lfloor>real p * 0.8\<rfloor> = int (4 * p div 5)"
    by (simp only: floor_divide_of_nat_eq)
  then show ?thesis by simp
qed

lemma floor_half: "nat \<lfloor>real n * 0.5\<rfloor> = n div 2"
proof -
  have "real n * 0.5 = real n / real 2" by simp
  then have "\<lfloor>real n * 0.5\<rfloor> = int (n div 2)"
    by (simp only: floor_divide_of_nat_eq)
  then show ?thesis by simp
qed

lemma pool_running_bounded: "pool_reachable limit q \<Longrightarrow> enat (running q) \<le> limit"
proof (induction rule: pool_reachable.induct)
  case init
  then show ?case by (simp add: zero_enat_def [symmetric])
next
  case (step q q')
  from step.hyps(2) step.IH show ?case
  proof (cases rule: pool_step.cases)
    case add
    with step.IH show ?thesis by simp
  next
    case admit
    then show ?thesis by (simp add: Suc_ile_eq)
  next
    case settle
    with step.IH show ?thesis
      by (cases limit) (simp_all)
  qed
qed

lemma sample_pool_reachable: "pool_reachable 2 \<lparr>waiting = 1, running = 2\<rparr>"
proof -
  have two: "(2::enat) = enat 2" by (simp add: numeral_eq_enat)
  have s0: "pool_reachable 2 \<lparr>waiting = 0, running = 0\<rparr>" by (rule pool_reachable.init)
  have s1: "pool_reachable 2 \<lparr>waiting = 1, running = 0\<rparr>"
    using pool_reachable.step [OF s0 pool_step.add] by simp
  have s2: "pool_reachable 2 \<lparr>waiting = 2, running = 0\<rparr>"
    using pool_reachable.step [OF s1 pool_step.add] by (simp add: eval_nat_numeral)
  have s3: "pool_reachable 2 \<lparr>waiting = 3, running = 0\<rparr>"
    using pool_reachable.step [OF s2 pool_step.add] by (simp add: eval_nat_numeral)
  have s4: "pool_reachable 2 \<lparr>waiting = 2, running = 1\<rparr>"
    using pool_reachable.step [OF s3 pool_step.admit] by (simp add: two eval_nat_numeral)
  show ?thesis
    using pool_reachable.step [OF s4 pool_step.admit] by (simp add: two eval_nat_numeral)
qed

text \<open>
  C8. With automatic concurrency the outer pool has \<open>\<lfloor>availableParallelism * 0.8\<rfloor>\<close>
  slots (that is \<open>4p div 5\<close>) and the inner pool \<open>\<lfloor>outer * 0.5\<rfloor>\<close> (that is
  \<open>outer div 2\<close>); with an explicit number the outer pool has that number of slots and
  the inner pool is unbounded. With automatic sizing and an outer pool of 4 the inner
  pool has 2 slots, and no reachable state of a pool with that limit runs more than 2
  operations.
\<close>

theorem pool_sizes:
  "(case concurrency options of
      Auto \<Rightarrow>
        appConcurrency options p = nat \<lfloor>real p * 0.8\<rfloor> \<and>
        appConcurrency options p = 4 * p div 5 \<and>
        workerConcurrency options p = enat (nat \<lfloor>real (appConcurrency options p) * 0.5\<rfloor>) \<and>
        workerConcurrency options p = enat (appConcurrency options p div 2)
    | Fixed n \<Rightarrow> appConcurrency options p = n \<and> workerConcurrency options p = \<infinity>) \<and>
   (concurrency options = Auto \<longrightarrow> appConcurrency options p = 4 \<longrightarrow>
      workerConcurrency options p = 2 \<and>
      (\<forall>q. pool_reachable (workerConcurrency options p) q \<longrightarrow> running q \<le> 2))"
proof (cases "concurrency options")
  case Auto
  have a1: "appConcurrency options p = nat \<lfloor>real p * 0.8\<rfloor>"
    unfolding appConcurrency_def Auto by simp
  have a2: "appConcurrency options p = 4 * p div 5"
    unfolding a1 by (rule floor_four_fifths)
  have w1: "workerConcurrency options p = enat (nat \<lfloor>real (appConcurrency options p) * 0.5\<rfloor>)"
    unfolding workerConcurrency_def Auto by simp
  have w2: "workerConcurrency options p = enat (appConcurrency options p div 2)"
    unfolding w1 floor_half ..
  have w3: "workerConcurrency options p = 2" if "appConcurrency options p = 4"
    unfolding w2 that by (simp add: numeral_eq_enat)
  have inv: "running q \<le> 2"
    if "appConcurrency options p = 4" "pool_reachable (workerConcurrency options p) q" for q
    using pool_running_bounded [OF that(2)] unfolding w2 that(1) by simp
  from a1 a2 w1 w2 w3 inv show ?thesis
    unfolding Auto concurrency_option.case by blast
next
  case (Fixed n)
  then show ?thesis by (simp add: appConcurrency_def workerConcurrency_def)
qed

theorem pool_sizes_witness:
  "concurrency sample_options = Auto \<and>
   appConcurrency sample_options 5 = 4 \<and>
   workerConcurrency sample_options 5 = 2 \<and>
   pool_reachable (workerConcurrency sample_options 5) \<lparr>waiting = 1, running = 2\<rparr> \<and>
   running \<lparr>waiting = 1, running = 2\<rparr> \<le> 2 \<and>
   concurrency (sample_options\<lparr>concurrency := Fixed 3\<rparr>) = Fixed 3 \<and>
   appConcurrency (sample_options\<lparr>concurrency := Fixed 3\<rparr>) 5 = 3 \<and>
   workerConcurrency (sample_options\<lparr>concurrency := Fixed 3\<rparr>) 5 = \<infinity>"
proof -
  have a: "concurrency sample_options = Auto" by (simp add: sample_options_def)
  have f: "concurrency (sample_options\<lparr>concurrency := Fixed 3\<rparr>) = Fixed 3" by simp
  have four: "appConcurrency sample_options 5 = 4"
    using pool_sizes [of sample_options 5] by (simp add: a)
  have two: "workerConcurrency sample_options 5 = 2"
    using pool_sizes [of sample_options 5] a four by (simp add: numeral_eq_enat)
  have r: "pool_reachable (workerConcurrency sample_options 5) \<lparr>waiting = 1, running = 2\<rparr>"
    unfolding two by (rule sample_pool_reachable)
  from pool_sizes [of sample_options 5] pool_sizes [of "sample_options\<lparr>concurrency := Fixed 3\<rparr>" 5]
    a f four two r
  show ?thesis by simp
qed

subsection \<open>C10: the files of the AI SDK runner\<close>



subsection \<open>C2: a generation that fails or returns nothing\<close>

text \<open>
  In any round, a generation that rejects or resolves with nothing ends the loop by an
  exception and adds no event; and whenever \<^verbatim>\<open>startEvaluationTask\<close> ends by an
  exception, it has logged nothing and has not called the cleanup.
\<close>

lemma step_loop_generation_failure:
  assumes "getPrompt (w i) = Inr texts" and "resolveContextFiles (w i) = None"
    and "generateInitialFiles (w i) = Inr None \<or> generateInitialFiles (w i) = Inl e"
  shows "\<exists>err. step_loop multi uj cuj w i (promptDef # rest) rs tr = (Inl err, tr)"
  using assms by (cases texts) (auto simp: read_toolLogs_def)

lemma step_loop_exception_trace:
  "step_loop multi uj cuj w i defs rs tr = (Inl e, tr') \<Longrightarrow> tr' = tr"
proof (induction defs arbitrary: i rs)
  case Nil
  then show ?case by simp
next
  case (Cons promptDef rest)
  show ?case
  proof (rule ccontr)
    assume neq: "tr' \<noteq> tr"
    from Cons.prems neq obtain rs' where
      "step_loop multi uj cuj w (i + 1) rest rs' tr = (Inl e, tr')"
      by (auto simp: Let_def split: sum.splits option.splits prod.splits if_splits)
    from Cons.IH [OF this] neq show False by simp
  qed
qed

lemma startEvaluationTask_exception_trace:
  "startEvaluationTask uj cuj setup w rootPromptDef = (Inl e, tr) \<Longrightarrow> tr = []"
  by (auto simp: startEvaluationTask_def split: option.splits prod.splits sum.splits
      dest: step_loop_exception_trace)

text \<open>
  C2 does not hold of the code. When \<^verbatim>\<open>generateInitialFiles\<close> resolves with nothing,
  the read of \<^verbatim>\<open>initialResponse.toolLogs\<close> throws before the test
  \<^verbatim>\<open>if (!initialResponse)\<close> is reached; when it rejects, the rejection leaves
  \<^verbatim>\<open>startEvaluationTask\<close>. In both cases nothing is logged and the cleanup is not
  called. The sibling path, a failure to write the files, logs and cleans up.
\<close>

theorem generation_failure_skips_cleanup:
  "startEvaluationTask False False None (\<lambda>i. sample_round (Inr None)) sample_prompt
     = (Inl (Thrown TypeError ''Cannot read properties of undefined (reading 'toolLogs')'' None), []) \<and>
   startEvaluationTask False False None (\<lambda>i. sample_round (Inl sample_rejection)) sample_prompt
     = (Inl sample_rejection, []) \<and>
   startEvaluationTask False False None
       (\<lambda>i. (sample_round (Inr (Some \<lparr>files = [], toolLogs = None\<rparr>)))
               \<lparr>writeResponseFiles := Some sample_rejection\<rparr>) sample_prompt
     = (Inr [], [LogError ''todo-app'' failed_to_generate, CleanupCalled, CleanupCalled])"
  by (simp add: startEvaluationTask_def sample_prompt_def sample_round_def read_toolLogs_def
      sample_step_def write_files_def nullish_def)

subsection \<open>C1: retries on timeout, and the isolation of a failed job\<close>

lemma attempt_loop_returns:
  "int i < m \<Longrightarrow> promptResults (attempt_loop etext name outcomes m i) \<noteq> None"
proof (induction etext name outcomes m i rule: attempt_loop.induct)
  case (1 etext name outcomes maxAttempts attemptIdx)
  show ?case
  proof (cases "evaluate (outcomes attemptIdx)")
    case (Inr rs)
    with "1.prems" show ?thesis by (simp add: attempt_loop.simps [of _ _ _ _ attemptIdx])
  next
    case (Inl e)
    show ?thesis
    proof (cases "instanceof_TimeoutError e \<and> int attemptIdx < maxAttempts - 1")
      case True
      with "1.prems" Inl have "int (attemptIdx + 1) < maxAttempts" by simp
      with "1.IH" [OF "1.prems" Inl True] "1.prems" Inl True show ?thesis
        by (simp add: attempt_loop.simps [of _ _ _ _ attemptIdx] Let_def)
    next
      case False
      with "1.prems" Inl show ?thesis
        by (auto simp: attempt_loop.simps [of _ _ _ _ attemptIdx])
    qed
  qed
qed

lemma attempt_loop_fails:
  assumes "\<forall>j. i \<le> j \<and> j < k \<longrightarrow>
             (\<exists>t. evaluate (outcomes j) = Inl t \<and> instanceof_TimeoutError t)"
    and "i \<le> k" and "int k < m"
    and "evaluate (outcomes k) = Inl e"
    and "\<not> instanceof_TimeoutError e \<or> int k = m - 1"
  shows "attempt_loop etext name outcomes m i =
           \<lparr>promptResults = Some [],
            pushed = [\<lparr>failedPromptName = name, failedError = etext e,
                       failedStack = (if instanceof_Error e then stack e else None)\<rparr>],
            evaluations = k - i + 1\<rparr>"
  using assms
proof (induction "k - i" arbitrary: i)
  case 0
  then have "i = k" by simp
  with "0.prems" show ?case
    by (auto simp: attempt_loop.simps [of _ _ _ _ k])
next
  case (Suc d)
  then have lt: "i < k" by simp
  with Suc.prems(1) obtain t where t: "evaluate (outcomes i) = Inl t" "instanceof_TimeoutError t"
    by auto
  from lt Suc.prems(3) have more: "int i < m - 1" "int i < m" by simp_all
  have d: "d = k - (i + 1)" using Suc.hyps(2) by simp
  have "attempt_loop etext name outcomes m (i + 1) =
           \<lparr>promptResults = Some [],
            pushed = [\<lparr>failedPromptName = name, failedError = etext e,
                       failedStack = (if instanceof_Error e then stack e else None)\<rparr>],
            evaluations = k - (i + 1) + 1\<rparr>"
    using Suc.prems lt by (intro Suc.hyps(1) [OF d]) auto
  with t more lt show ?case
    by (simp add: attempt_loop.simps [of _ _ _ _ i] Let_def)
qed

lemma all_jobs_length: "length (all_jobs w options ps) = length ps"
  by (simp add: all_jobs_def)

lemma all_jobs_nth:
  "i < length ps \<Longrightarrow>
   all_jobs w options ps ! i = prompt_job (errorText w) options (ps ! i) (attemptsOf w i)"
  by (simp add: all_jobs_def)

lemma settle_order_mset: "mset (settle_order w n) = mset [0..<n]"
  by (simp add: settle_order_def)

lemma settle_order_set: "set (settle_order w n) = {0..<n}"
  by (simp add: settle_order_def)

lemma map_nth_upt: "map (\<lambda>i. f (xs ! i)) [0..<length xs] = map f xs"
  by (rule nth_equalityI) simp_all

lemma mset_concat_perm:
  "mset is = mset js \<Longrightarrow> mset (concat (map f is)) = mset (concat (map f js))"
proof -
  assume eq: "mset is = mset js"
  have "mset (concat (map f ks)) = sum_mset (image_mset (\<lambda>i. mset (f i)) (mset ks))" for ks
    by (induction ks) simp_all
  then show ?thesis by (simp only: eq)
qed

lemma concat_map_skip:
  "f i = [] \<Longrightarrow> concat (map f xs) = concat (map f (filter (\<lambda>j. j \<noteq> i) xs))"
  by (induction xs) auto


lemma maxAttempts_positive_returns:
  assumes "0 < maxAttempts_of options" and "j < length ps"
  shows "promptResults (all_jobs w options ps ! j) \<noteq> None"
  using assms attempt_loop_returns [of 0 "maxAttempts_of options"]
  by (simp add: all_jobs_nth prompt_job_def)

lemma generateCodeAndAssess_returns:
  assumes "preparation w = None" "startMcp w = None" "completion w = None"
    and "ps \<noteq> []" and "0 < maxAttempts_of options"
  shows "generateCodeAndAssess w options envName ps =
           Inr \<lparr>results = sort_key (\<lambda>a. collationKey w (promptDef_name a))
                         (concat (map (\<lambda>j. case promptResults j of Some r \<Rightarrow> r | None \<Rightarrow> [])
                            (all_jobs w options ps))),
                 allPromptsCount = length ps,
                 failedPrompts = concat (map (\<lambda>i. pushed (all_jobs w options ps ! i))
                                        (settle_order w (length ps))),
                 runLabels = Array_from (new_Set (labels options))\<rparr>"
proof -
  have "find (\<lambda>i. promptResults (all_jobs w options ps ! i) = None)
             (settle_order w (length ps)) = None"
    using maxAttempts_positive_returns [OF assms(5), of _ ps w]
    by (auto simp: find_None_iff settle_order_set)
  with assms(1-4) show ?thesis
    unfolding generateCodeAndAssess_def Let_def by simp
qed

lemma failedPrompts_mset:
  "mset (concat (map (\<lambda>i. pushed (all_jobs w options ps ! i)) (settle_order w (length ps))))
     = mset (concat (map pushed (all_jobs w options ps)))"
proof -
  have "mset (concat (map (\<lambda>i. pushed (all_jobs w options ps ! i)) (settle_order w (length ps))))
      = mset (concat (map (\<lambda>i. pushed (all_jobs w options ps ! i)) [0..<length ps]))"
    by (rule mset_concat_perm) (rule settle_order_mset)
  also have "map (\<lambda>i. pushed (all_jobs w options ps ! i)) [0..<length ps]
      = map pushed (all_jobs w options ps)"
    using map_nth_upt [of pushed "all_jobs w options ps"] by (simp add: all_jobs_length)
  finally show ?thesis .
qed

text \<open>
  C1. Let \<open>r\<close> be the configured number of retries. If the first \<open>k \<le> r\<close> evaluations
  of job \<open>i\<close> time out and the next one fails, by a timeout when \<open>k = r\<close> or by any
  other failure, then the job has called \<^verbatim>\<open>evaluate\<close> \<open>k + 1\<close> times (at most
  \<open>r + 1\<close>), has pushed exactly one entry (name, error text, stack if the thrown value
  is an \<^verbatim>\<open>Error\<close>) and yields the empty list. The run, when nothing outside the jobs
  fails, returns: its results are those of the other jobs, sorted, and its failed
  prompts are the entries the jobs pushed.
\<close>

theorem timeout_retry_and_failure_isolation:
  assumes retries: "nullish (promptTimeoutRetries options) 0 = int r"
    and i: "i < length ps"
    and k: "k \<le> r"
    and timeouts: "\<forall>j<k. \<exists>t. evaluate (attemptsOf w i j) = Inl t \<and> instanceof_TimeoutError t"
    and failure: "evaluate (attemptsOf w i k) = Inl e"
    and final: "\<not> instanceof_TimeoutError e \<or> k = r"
    and others: "preparation w = None" "startMcp w = None" "completion w = None"
  shows "all_jobs w options ps ! i =
           \<lparr>promptResults = Some [],
            pushed = [\<lparr>failedPromptName = ps ! i, failedError = errorText w e,
                       failedStack = (if instanceof_Error e then stack e else None)\<rparr>],
            evaluations = k + 1\<rparr> \<and>
         (\<exists>info. generateCodeAndAssess w options envName ps = Inr info \<and>
            results info =
              sort_key (\<lambda>a. collationKey w (promptDef_name a))
                (concat (map (\<lambda>j. case promptResults (all_jobs w options ps ! j) of
                                     Some rs \<Rightarrow> rs | None \<Rightarrow> [])
                             (filter (\<lambda>j. j \<noteq> i) [0..<length ps]))) \<and>
            mset (failedPrompts info) = mset (concat (map pushed (all_jobs w options ps))))"
proof -
  have m: "maxAttempts_of options = int r + 1"
    using retries by (simp add: maxAttempts_of_def)
  have job: "all_jobs w options ps ! i =
           \<lparr>promptResults = Some [],
            pushed = [\<lparr>failedPromptName = ps ! i, failedError = errorText w e,
                       failedStack = (if instanceof_Error e then stack e else None)\<rparr>],
            evaluations = k + 1\<rparr>"
    using attempt_loop_fails [of 0 k "attemptsOf w i" "maxAttempts_of options" e
        "errorText w" "ps ! i"] timeouts failure final k i
    by (auto simp: all_jobs_nth prompt_job_def m)
  let ?f = "\<lambda>j. case promptResults (all_jobs w options ps ! j) of Some rs \<Rightarrow> rs | None \<Rightarrow> []"
  have "concat (map (\<lambda>j. case promptResults j of Some r \<Rightarrow> r | None \<Rightarrow> []) (all_jobs w options ps))
      = concat (map ?f [0..<length ps])"
    using map_nth_upt [of "\<lambda>j. case promptResults j of Some r \<Rightarrow> r | None \<Rightarrow> []"
        "all_jobs w options ps"]
    by (simp add: all_jobs_length)
  also have "\<dots> = concat (map ?f (filter (\<lambda>j. j \<noteq> i) [0..<length ps]))"
    by (rule concat_map_skip) (simp add: job)
  finally have res: "concat (map (\<lambda>j. case promptResults j of Some r \<Rightarrow> r | None \<Rightarrow> [])
                        (all_jobs w options ps))
      = concat (map ?f (filter (\<lambda>j. j \<noteq> i) [0..<length ps]))" .
  have ne: "ps \<noteq> []" using i by auto
  have pos: "0 < maxAttempts_of options" using m by simp
  show ?thesis
    unfolding generateCodeAndAssess_returns [OF others ne pos]
    using job res failedPrompts_mset [of w options ps] by simp
qed

theorem timeout_retry_and_failure_isolation_witness:
  "nullish (promptTimeoutRetries sample_options) 0 = int 1 \<and>
   0 < length [''beta'', ''alpha'', ''gamma''] \<and>
   evaluate (attemptsOf sample_run 0 0) = Inl sample_timeout \<and>
   evaluate (attemptsOf sample_run 0 1) = Inl sample_timeout \<and>
   instanceof_TimeoutError sample_timeout \<and>
   preparation sample_run = None \<and> startMcp sample_run = None \<and> completion sample_run = None \<and>
   all_jobs sample_run sample_options [''beta'', ''alpha'', ''gamma''] ! 0 =
     \<lparr>promptResults = Some [], pushed = [sample_failure], evaluations = 2\<rparr> \<and>
   generateCodeAndAssess sample_run sample_options ''Demo'' [''beta'', ''alpha'', ''gamma'']
     = Inr sample_info \<and>
   results sample_info = [sample_result ''alpha'', sample_result ''gamma''] \<and>
   failedPrompts sample_info = [sample_failure]"
proof -
  have r: "nullish (promptTimeoutRetries sample_options) 0 = int 1"
    by (simp add: sample_options_def nullish_def)
  have i: "0 < length [''beta'', ''alpha'', ''gamma'']" by simp
  have ev: "evaluate (attemptsOf sample_run 0 j) = Inl sample_timeout" for j
    by (simp add: sample_run_def evaluate_def sample_attempt_def)
  have t: "instanceof_TimeoutError sample_timeout"
    by (simp add: instanceof_TimeoutError_def sample_timeout_def)
  have ts: "\<forall>j<1. \<exists>t. evaluate (attemptsOf sample_run 0 j) = Inl t \<and> instanceof_TimeoutError t"
    using ev t by blast
  have o: "preparation sample_run = None" "startMcp sample_run = None"
    "completion sample_run = None"
    by (simp_all add: sample_run_def)
  have f: "\<lparr>failedPromptName = [''beta'', ''alpha'', ''gamma''] ! 0,
             failedError = errorText sample_run sample_timeout,
             failedStack = (if instanceof_Error sample_timeout then stack sample_timeout else None)\<rparr>
           = sample_failure"
    by (simp add: sample_failure_def sample_run_def sample_timeout_def instanceof_Error_def)
  from timeout_retry_and_failure_isolation
    [OF r i order_refl ts ev [of 1] disjI2 [OF refl] o, of "''Demo''"]
  have "all_jobs sample_run sample_options [''beta'', ''alpha'', ''gamma''] ! 0 =
     \<lparr>promptResults = Some [], pushed = [sample_failure], evaluations = 2\<rparr>"
    unfolding f by simp
  then show ?thesis
    using r ev t o sample_run_result
    by (simp add: sample_info_def)
qed

subsection \<open>C7: the order of the results\<close>

lemma all_jobs_finishedAt: "all_jobs (w\<lparr>finishedAt := f\<rparr>) options ps = all_jobs w options ps"
  by (simp add: all_jobs_def)

text \<open>
  C7. The results of a run that returns are sorted ascending by prompt name (in the
  order of \<^verbatim>\<open>localeCompare\<close>); they are the results of the jobs, flattened in the
  order of submission, and results whose names compare equal keep that order; and
  they are the same whatever the order in which the jobs settle.
\<close>

theorem results_sorted_by_name:
  assumes "generateCodeAndAssess w options envName ps = Inr info"
  shows "sorted (map (\<lambda>a. collationKey w (promptDef_name a)) (results info)) \<and>
         mset (results info) =
           mset (concat (map (\<lambda>j. case promptResults j of Some rs \<Rightarrow> rs | None \<Rightarrow> [])
                             (all_jobs w options ps))) \<and>
         (\<forall>key. filter (\<lambda>a. collationKey w (promptDef_name a) = key) (results info) =
                filter (\<lambda>a. collationKey w (promptDef_name a) = key)
                  (concat (map (\<lambda>j. case promptResults j of Some rs \<Rightarrow> rs | None \<Rightarrow> [])
                               (all_jobs w options ps)))) \<and>
         (\<forall>f info'. generateCodeAndAssess (w\<lparr>finishedAt := f\<rparr>) options envName ps = Inr info'
              \<longrightarrow> results info' = results info)"
proof -
  let ?all = "concat (map (\<lambda>j. case promptResults j of Some rs \<Rightarrow> rs | None \<Rightarrow> [])
                         (all_jobs w options ps))"
  let ?key = "\<lambda>a. collationKey w (promptDef_name a)"
  from generateCodeAndAssess_Inr [OF assms]
  have r: "results info = sort_key ?key ?all" by simp
  have other: "results info' = results info"
    if "generateCodeAndAssess (w\<lparr>finishedAt := f\<rparr>) options envName ps = Inr info'" for f info'
    using generateCodeAndAssess_Inr [OF that] r by (simp add: all_jobs_finishedAt)
  have stable: "filter (\<lambda>a. ?key a = key) (sort_key ?key ?all) = filter (\<lambda>a. ?key a = key) ?all"
    for key
    by (rule sort_key_stable)
  show ?thesis
    unfolding r using other r stable by auto
qed

lemma sample_settle_order_other:
  "settle_order (sample_run\<lparr>finishedAt := \<lambda>i. i\<rparr>) (length [''beta'', ''alpha'', ''gamma''])
     = [0, 1, 2]"
  by (simp add: settle_order_def upt3)

lemma sample_run_result_other:
  "generateCodeAndAssess (sample_run\<lparr>finishedAt := \<lambda>i. i\<rparr>) sample_options ''Demo''
     [''beta'', ''alpha'', ''gamma''] = Inr sample_info"
  unfolding generateCodeAndAssess_def all_jobs_finishedAt sample_all_jobs
    sample_settle_order_other Let_def
  by (simp add: sample_run_def sample_result_def sample_options_def Array_from_def new_Set_def
      Set_add_def sample_info_def)

theorem results_sorted_by_name_witness:
  "generateCodeAndAssess sample_run sample_options ''Demo'' [''beta'', ''alpha'', ''gamma'']
     = Inr sample_info \<and>
   generateCodeAndAssess (sample_run\<lparr>finishedAt := \<lambda>i. i\<rparr>) sample_options ''Demo''
     [''beta'', ''alpha'', ''gamma''] = Inr sample_info \<and>
   map promptDef_name (results sample_info) = [''alpha'', ''gamma''] \<and>
   sorted (map (\<lambda>a. collationKey sample_run (promptDef_name a)) (results sample_info))"
  using results_sorted_by_name [OF sample_run_result] sample_run_result sample_run_result_other
  by (simp add: sample_info_def sample_result_def)

subsection \<open>C6: the order of the steps of a multi-step prompt\<close>




















lemma sample_entry:
  "multi_step_entry (sample_outside L) sample_multi_step ''wizard'' [] (sample_file ''step-1.md'')
     = Inr (1, sample_step ''wizard-step-1'' ''step-1.md'' Generation)"
  "multi_step_entry (sample_outside L) sample_multi_step ''wizard'' [] (sample_file ''step-2.md'')
     = Inr (2, sample_step ''wizard-step-2'' ''step-2.md'' Editing)"
  "multi_step_entry (sample_outside L) sample_multi_step ''wizard'' [] (sample_file ''step-3.md'')
     = Inr (3, sample_step ''wizard-step-3'' ''step-3.md'' Editing)"
  by (simp_all add: multi_step_entry_def sample_file_def stepRegex_match_def is_digit_def
      parseInt_def digit_value_def sample_multi_step_def Let_def getSinglePromptDefinition_def
      sample_outside_def sample_step_def decimal.simps digit_char_def char_of_def bit_0)

lemma sample_root:
  "path_resolve (sample_outside L) ''/env'' (directoryPath sample_multi_step) = ''/env/wizard''"
  "path_basename (sample_outside L) ''/env/wizard'' = ''wizard''"
  "statSync_isDirectory (sample_outside L) ''/env/wizard'' = Inr True"
  "readdirSync (sample_outside L) ''/env/wizard'' = Inr L"
  by (simp_all add: sample_outside_def sample_multi_step_def)



text \<open>
  Steps with equal numbers keep the order of the listing: the files \<open>step-1.md\<close> and
  \<open>step-01.md\<close> both give a step named \<open>wizard-step-1\<close>, and the two prompts come in
  the order in which the directory lists the files.
\<close>

lemma equal_step_numbers_keep_listing_order:
  "map prompt (steps (projr (getMultiStepPrompt
      (sample_outside [sample_file ''step-1.md'', sample_file ''step-01.md''])
      ''/env'' sample_multi_step [])))
     = [''prompt of wizard/step-1.md'', ''prompt of wizard/step-01.md''] \<and>
   map prompt (steps (projr (getMultiStepPrompt
      (sample_outside [sample_file ''step-01.md'', sample_file ''step-1.md''])
      ''/env'' sample_multi_step [])))
     = [''prompt of wizard/step-01.md'', ''prompt of wizard/step-1.md'']"
proof -
  have e: "multi_step_entry (sample_outside L) sample_multi_step ''wizard'' []
             (sample_file ''step-01.md'')
           = Inr (1, sample_step ''wizard-step-1'' ''step-01.md'' Generation)" for L
    by (simp add: multi_step_entry_def sample_file_def stepRegex_match_def is_digit_def
        parseInt_def digit_value_def sample_multi_step_def Let_def getSinglePromptDefinition_def
        sample_outside_def sample_step_def decimal.simps digit_char_def char_of_def bit_0)
  show ?thesis
    unfolding getMultiStepPrompt_def Let_def sample_root
    by (simp add: sample_entry e stepValue_def sample_step_def)
qed

end
